theory Spec2Isabelle
  imports Complex_Main
begin

section \<open>The circuit breaker of src/circuitbreaker.ts\<close>

text \<open>
  The class \<^verbatim>\<open>CircuitBreaker\<close> guards one asynchronous operation. Its methods mutate the
  fields of \<^verbatim>\<open>this\<close>, read the wall clock through \<^verbatim>\<open>Date.now()\<close> and invoke the guarded
  operation. The model makes each of these explicit:
  \<^item> the fields are a record, and every method takes the object and returns it updated;
  \<^item> the clock is a sequence \<open>clk\<close> of readings: the \<open>n\<close>-th call of \<^verbatim>\<open>Date.now()\<close> since
    the start returns \<open>clk n\<close>, and the object carries the number \<open>tick\<close> of readings taken
    so far, so that two readings inside one method may differ;
  \<^item> the guarded operation is a function of the number of its earlier invocations and of
    its argument list; its promise resolves, rejects or never settles;
  \<^item> the object carries the log \<open>calls\<close> of the argument lists the guarded operation was
    invoked with;
  \<^item> a promise returned by \<^verbatim>\<open>fire\<close> is a value: resolved, rejected or never settled.
  Numbers are JavaScript numbers in the source. An option passed to the constructor is
  modelled as an integer or NaN; clock readings, the stored timeouts and thresholds and
  the deadlines as \<open>int\<close> (milliseconds), the two counters as \<open>nat\<close> (they start at 0 and
  are only incremented or set to 0 or 1), and the failure rate, the one quotient the code
  computes, as a rational number. One call of \<^verbatim>\<open>fire\<close> runs from admission to the end of its
  handler without another call interleaving.
\<close>

subsection \<open>Data\<close>

datatype State = OPENED | CLOSED | HALF

text \<open>
  \<^verbatim>\<open>Options\<close> has four optional numbers; \<^verbatim>\<open>Required<Options>\<close> has the same four fields, all
  present. One record, parametrised by the type of a field, serves both.
\<close>

record 'n Options =
  halfTimeout :: 'n
  openTimeout :: 'n
  minFailed :: 'n
  percentFailed :: 'n

text \<open>
  A number a caller passes as an option: an integer or NaN. The constructor stores no NaN
  (\<^verbatim>\<open>NaN || d\<close> is \<open>d\<close>), so the stored options, and the deadlines computed from them and
  from the clock, are integers.
\<close>

datatype jsnum = Num int | NaN

text \<open>
  The JavaScript values the breaker handles: payloads and arguments (\<^verbatim>\<open>any\<close>), the
  \<^verbatim>\<open>Error\<close> thrown by \<^verbatim>\<open>fire\<close>, and the object
  \<^verbatim>\<open>{ response, state, openDateEnd, halfDateEnd }\<close> built in \<^verbatim>\<open>fire\<close>, whose two dates are
  \<^verbatim>\<open>Date\<close> objects, given by their epoch milliseconds.
\<close>

datatype jsval =
    JUndefined
  | JNum int
  | JStr string
  | JArr "jsval list"
  | JError string
  | JInfo jsval State int int

datatype outcome = Resolves jsval | Rejects jsval | Hangs

datatype promise = Resolved jsval | Rejected jsval | Unsettled

record CircuitBreaker =
  request :: "nat \<Rightarrow> jsval list \<Rightarrow> outcome"
  options :: "int Options"
  state :: State
  openDateEnd :: "int option"
  halfDateEnd :: "int option"
  failCount :: nat
  successCount :: nat

text \<open>The object together with the clock position and the invocation log.\<close>

record world = CircuitBreaker +
  tick :: nat
  calls :: "jsval list list"

type_synonym clock = "nat \<Rightarrow> int"

subsection \<open>JavaScript operators on numbers that may be undefined\<close>

text \<open>
  \<^verbatim>\<open>x || d\<close> for a number \<open>x\<close> that may be undefined: \<open>d\<close> when \<open>x\<close> is falsy, that is
  undefined, NaN or 0, else \<open>x\<close>.
\<close>

definition or_default :: "jsnum option \<Rightarrow> int \<Rightarrow> int" where
  "or_default x d =
     (case x of
        None \<Rightarrow> d
      | Some NaN \<Rightarrow> d
      | Some (Num v) \<Rightarrow> if v = 0 then d else v)"

text \<open>
  \<^verbatim>\<open>a < b\<close>, \<^verbatim>\<open>a >= b\<close> and \<^verbatim>\<open>a > b\<close> with \<open>b\<close> possibly undefined: undefined converts to NaN,
  and every comparison with NaN is false.
\<close>

definition js_lt :: "int \<Rightarrow> int option \<Rightarrow> bool" where
  "js_lt a b = (case b of None \<Rightarrow> False | Some v \<Rightarrow> a < v)"

definition js_ge :: "int \<Rightarrow> int option \<Rightarrow> bool" where
  "js_ge a b = (case b of None \<Rightarrow> False | Some v \<Rightarrow> a \<ge> v)"

definition js_gt :: "int \<Rightarrow> int option \<Rightarrow> bool" where
  "js_gt a b = (case b of None \<Rightarrow> False | Some v \<Rightarrow> a > v)"

subsection \<open>The constructor\<close>

text \<open>
  The field initialisers and the constructor body. \<^verbatim>\<open>opts\<close> itself may be undefined
  (\<^verbatim>\<open>opts?.halfTimeout\<close> is then undefined).
\<close>

definition opt_field ::
  "(jsnum option Options \<Rightarrow> jsnum option) \<Rightarrow> jsnum option Options option \<Rightarrow> jsnum option" where
  "opt_field f opts = (case opts of None \<Rightarrow> None | Some r \<Rightarrow> f r)"

definition construct ::
  "(nat \<Rightarrow> jsval list \<Rightarrow> outcome) \<Rightarrow> jsnum option Options option \<Rightarrow> CircuitBreaker" where
  "construct req opts =
     \<lparr> request = req,
       options = \<lparr> halfTimeout = or_default (opt_field halfTimeout opts) 10000,
                   openTimeout = or_default (opt_field openTimeout opts) 5000,
                   minFailed = or_default (opt_field minFailed opts) 15,
                   percentFailed = or_default (opt_field percentFailed opts) 50 \<rparr>,
       state = CLOSED,
       openDateEnd = None,
       halfDateEnd = None,
       failCount = 0,
       successCount = 0 \<rparr>"

text \<open>
  \<^verbatim>\<open>new CircuitBreaker(request, opts)\<close> as a result: \<open>Inl\<close> would be a thrown value. The
  constructor has no \<^verbatim>\<open>throw\<close> and calls nothing that throws, so it has no such branch.
\<close>

definition new_CircuitBreaker ::
  "(nat \<Rightarrow> jsval list \<Rightarrow> outcome) \<Rightarrow> jsnum option Options option \<Rightarrow> jsval + CircuitBreaker" where
  "new_CircuitBreaker req opts = Inr (construct req opts)"

text \<open>A breaker at the start of a run: no clock reading taken, no invocation made.\<close>

definition start :: "CircuitBreaker \<Rightarrow> world" where
  "start b = CircuitBreaker.extend b \<lparr> tick = 0, calls = [] \<rparr>"

subsection \<open>The methods\<close>

definition Date_now :: "clock \<Rightarrow> world \<Rightarrow> int \<times> world" where
  "Date_now clk w = (clk (tick w), w\<lparr>tick := Suc (tick w)\<rparr>)"

text \<open>
  \<^verbatim>\<open>getInfo\<close>, merged with \<^verbatim>\<open>response\<close> as \<^verbatim>\<open>fire\<close> does. The two date fields are undefined
  or an integer.
\<close>

definition getInfo :: "jsval \<Rightarrow> world \<Rightarrow> jsval" where
  "getInfo response w =
     JInfo response (state w)
       (or_default (map_option Num (openDateEnd w)) 0)
       (or_default (map_option Num (halfDateEnd w)) 0)"

definition reset :: "world \<Rightarrow> world" where
  "reset w = w\<lparr>successCount := 0, failCount := 0, halfDateEnd := None\<rparr>"

definition setOpenDate :: "clock \<Rightarrow> world \<Rightarrow> world" where
  "setOpenDate clk w =
     (let (now, w) = Date_now clk w
      in w\<lparr>openDateEnd := Some (now + openTimeout (options w))\<rparr>)"

definition setHalfDate :: "clock \<Rightarrow> world \<Rightarrow> world" where
  "setHalfDate clk w =
     (let (now, w) = Date_now clk w
      in w\<lparr>halfDateEnd := Some (now + halfTimeout (options w))\<rparr>)"

text \<open>
  \<^verbatim>\<open>failCount * 100 / (failCount + successCount)\<close>; \<open>None\<close> is NaN, the value of \<^verbatim>\<open>0 / 0\<close>.
\<close>

definition getFailRate :: "world \<Rightarrow> rat option" where
  "getFailRate w =
     (if failCount w + successCount w = 0 then None
      else Some (of_nat (failCount w * 100) / of_nat (failCount w + successCount w)))"

definition rate_ge :: "rat option \<Rightarrow> int \<Rightarrow> bool" where
  "rate_ge r p = (case r of None \<Rightarrow> False | Some v \<Rightarrow> v \<ge> of_int p)"

text \<open>
  \<^verbatim>\<open>success\<close>: the three cases of the \<^verbatim>\<open>switch\<close> have no \<^verbatim>\<open>break\<close>, so control entering at
  \<^verbatim>\<open>HALF\<close> runs all three bodies, and control entering at \<^verbatim>\<open>OPENED\<close> runs the last two.
\<close>

definition success_case_HALF :: "clock \<Rightarrow> world \<Rightarrow> world" where
  "success_case_HALF clk w =
     (let w = w\<lparr>successCount := successCount w + 1\<rparr>;
          (now, w) = Date_now clk w
      in if js_ge now (halfDateEnd w) then reset (w\<lparr>state := CLOSED\<rparr>) else w)"

definition success_case_OPENED :: "clock \<Rightarrow> world \<Rightarrow> world" where
  "success_case_OPENED clk w = setHalfDate clk (w\<lparr>successCount := 1, state := HALF\<rparr>)"

definition success_case_CLOSED :: "world \<Rightarrow> world" where
  "success_case_CLOSED w = w\<lparr>successCount := successCount w + 1\<rparr>"

definition success :: "clock \<Rightarrow> jsval \<Rightarrow> world \<Rightarrow> jsval \<times> world" where
  "success clk response w =
     (response,
      case state w of
        HALF \<Rightarrow> success_case_CLOSED (success_case_OPENED clk (success_case_HALF clk w))
      | OPENED \<Rightarrow> success_case_CLOSED (success_case_OPENED clk w)
      | CLOSED \<Rightarrow> success_case_CLOSED w)"

text \<open>
  \<^verbatim>\<open>fail\<close>: every case returns \<open>e\<close>, except that the \<^verbatim>\<open>HALF\<close> case leaves the \<^verbatim>\<open>switch\<close>
  without a \<^verbatim>\<open>return\<close> when neither \<^verbatim>\<open>if\<close> fires, and the method then returns undefined.
\<close>

definition fail :: "clock \<Rightarrow> jsval \<Rightarrow> jsval list \<Rightarrow> world \<Rightarrow> jsval \<times> world" where
  "fail clk e args w =
     (case state w of
        OPENED \<Rightarrow> (e, setOpenDate clk w)
      | CLOSED \<Rightarrow> (e, setHalfDate clk (w\<lparr>failCount := 1, state := HALF\<rparr>))
      | HALF \<Rightarrow>
          (let w = w\<lparr>failCount := failCount w + 1\<rparr>;
               (now, w) = Date_now clk w
           in if js_gt now (halfDateEnd w) then
                (e, setHalfDate clk ((reset w)\<lparr>failCount := 1\<rparr>))
              else if int (failCount w) \<ge> minFailed (options w) then
                (if rate_ge (getFailRate w) (percentFailed (options w)) then
                   (e, setOpenDate clk (reset (w\<lparr>state := OPENED\<rparr>)))
                 else (e, setHalfDate clk ((reset w)\<lparr>failCount := 1\<rparr>)))
              else (JUndefined, w)))"

text \<open>
  The admission test of \<^verbatim>\<open>fire\<close>: \<^verbatim>\<open>&&\<close> reads the clock only when the state is \<^verbatim>\<open>OPENED\<close>.
\<close>

definition blocked :: "clock \<Rightarrow> world \<Rightarrow> bool \<times> world" where
  "blocked clk w =
     (if state w = OPENED then
        (let (now, w) = Date_now clk w in (js_lt now (openDateEnd w), w))
      else (False, w))"

text \<open>
  \<^verbatim>\<open>this.request(args)\<close>: the guarded operation is invoked with one argument, the array of
  the arguments of \<^verbatim>\<open>fire\<close>. The invocation is logged.
\<close>

definition invoke :: "jsval list \<Rightarrow> world \<Rightarrow> outcome \<times> world" where
  "invoke actuals w = (request w (length (calls w)) actuals, w\<lparr>calls := calls w @ [actuals]\<rparr>)"

definition fire :: "clock \<Rightarrow> jsval list \<Rightarrow> world \<Rightarrow> promise \<times> world" where
  "fire clk args w =
     (let (b, w) = blocked clk w
      in if b then (Rejected (JError ''The circuit is open''), w)
         else
           (let (out, w) = invoke [JArr args] w
            in case out of
                 Resolves response \<Rightarrow>
                   (let (r, w) = success clk (getInfo response w) w in (Resolved r, w))
               | Rejects e \<Rightarrow>
                   (let (r, w) = fail clk (getInfo e w) args w in (Resolved r, w))
               | Hangs \<Rightarrow> (Unsettled, w)))"

text \<open>Calls of \<^verbatim>\<open>fire\<close> one after the other, each with its own arguments.\<close>

fun fire_many :: "clock \<Rightarrow> jsval list list \<Rightarrow> world \<Rightarrow> promise list \<times> world" where
  "fire_many clk [] w = ([], w)"
| "fire_many clk (args # rest) w =
     (let (p, w) = fire clk args w;
          (ps, w) = fire_many clk rest w
      in (p # ps, w))"

subsection \<open>The invariant of the open state\<close>

text \<open>
  When the state is \<^verbatim>\<open>OPENED\<close>, \<^verbatim>\<open>openDateEnd\<close> holds an earlier clock reading plus
  \<^verbatim>\<open>options.openTimeout\<close>.
\<close>

definition open_inv :: "clock \<Rightarrow> world \<Rightarrow> bool" where
  "open_inv clk w =
     (state w = OPENED \<longrightarrow> (\<exists>k < tick w. openDateEnd w = Some (clk k + openTimeout (options w))))"

subsection \<open>Concrete operations, clocks and configurations\<close>

text \<open>
  Guarded operations: one that always rejects with \<^verbatim>\<open>"Failed"\<close>, one that rejects on its
  first invocation and resolves with \<^verbatim>\<open>"Success"\<close> afterwards (the two payloads of
  src/index.ts), and one that resolves with the array of the arguments it received.
\<close>

definition always_fails :: "nat \<Rightarrow> jsval list \<Rightarrow> outcome" where
  "always_fails n actuals = Rejects (JStr ''Failed'')"

definition fail_then_succeed :: "nat \<Rightarrow> jsval list \<Rightarrow> outcome" where
  "fail_then_succeed n actuals =
     (if n = 0 then Rejects (JStr ''Failed'') else Resolves (JStr ''Success''))"

definition echo :: "nat \<Rightarrow> jsval list \<Rightarrow> outcome" where
  "echo n actuals = Resolves (JArr actuals)"

text \<open>Clocks: readings 1000, 2000, 3000, ...; 1000 then 20000; 1000 then 6000.\<close>

definition clock_1000s :: clock where
  "clock_1000s n = 1000 * (int n + 1)"

definition clock_late :: clock where
  "clock_late n = (if n = 0 then 1000 else 20000)"

definition clock_boundary :: clock where
  "clock_boundary n = (if n = 0 then 1000 else 6000)"

definition default_options :: "int Options" where
  "default_options =
     \<lparr> halfTimeout = 10000, openTimeout = 5000, minFailed = 15, percentFailed = 50 \<rparr>"

text \<open>The options of src/index.ts: \<^verbatim>\<open>{ minFailed: 2, halfTimeout: 5000 }\<close>.\<close>

definition demo_opts :: "jsnum option Options" where
  "demo_opts =
     \<lparr> halfTimeout = Some (Num 5000), openTimeout = None, minFailed = Some (Num 2),
       percentFailed = None \<rparr>"

definition scenario_opts :: "jsnum option Options" where
  "scenario_opts =
     \<lparr> halfTimeout = Some (Num 10000), openTimeout = Some (Num 5000), minFailed = Some (Num 2),
       percentFailed = Some (Num 50) \<rparr>"

definition malformed_opts :: "jsnum option Options" where
  "malformed_opts =
     \<lparr> halfTimeout = Some (Num (- 1)), openTimeout = Some (Num (- 5000)),
       minFailed = Some (Num (- 3)), percentFailed = Some (Num 150) \<rparr>"


definition mixed_opts :: "jsnum option Options" where
  "mixed_opts =
     \<lparr> halfTimeout = Some (Num (- 20)), openTimeout = Some NaN, minFailed = None,
       percentFailed = Some (Num 101) \<rparr>"

text \<open>
  The breaker that \<open>scenario_opts\<close> and two failed calls produce under the readings 1000,
  2000 and 3000: open until 8000, three clock readings taken.
\<close>

definition opened_example :: world where
  "opened_example =
     \<lparr> request = always_fails,
       options = \<lparr> halfTimeout = 10000, openTimeout = 5000, minFailed = 2, percentFailed = 50 \<rparr>,
       state = OPENED, openDateEnd = Some 8000, halfDateEnd = None,
       failCount = 0, successCount = 0, tick = 3, calls = [ [JArr []], [JArr []] ] \<rparr>"

section \<open>Properties\<close>

lemmas method_defs =
  fire_def blocked_def invoke_def success_def fail_def success_case_HALF_def
  success_case_OPENED_def success_case_CLOSED_def setHalfDate_def setOpenDate_def
  reset_def getInfo_def getFailRate_def rate_ge_def Date_now_def js_lt_def js_ge_def
  js_gt_def or_default_def

lemmas ctor_defs = new_CircuitBreaker_def construct_def opt_field_def start_def
  CircuitBreaker.extend_def

subsection \<open>Admission\<close>

lemma blocked_iff:
  "fst (blocked clk w) = (state w = OPENED \<and> js_lt (clk (tick w)) (openDateEnd w))"
  by (simp add: blocked_def Date_now_def)

lemma blocked_fields:
  "options (snd (blocked clk w)) = options w" "state (snd (blocked clk w)) = state w"
  "openDateEnd (snd (blocked clk w)) = openDateEnd w" "tick w \<le> tick (snd (blocked clk w))"
  "request (snd (blocked clk w)) = request w" "calls (snd (blocked clk w)) = calls w"
  "halfDateEnd (snd (blocked clk w)) = halfDateEnd w"
  by (simp_all add: blocked_def Date_now_def)

lemma fire_blocked:
  assumes "state w = OPENED" "js_lt (clk (tick w)) (openDateEnd w)"
  shows "fire clk args w =
           (Rejected (JError ''The circuit is open''), w\<lparr>tick := Suc (tick w)\<rparr>)"
  using assms by (simp add: fire_def blocked_def Date_now_def)

text \<open>\<^verbatim>\<open>fire\<close> with its \<^verbatim>\<open>let\<close>s resolved into projections.\<close>

lemma fire_unfold:
  "fire clk args w =
     (if fst (blocked clk w) then (Rejected (JError ''The circuit is open''), snd (blocked clk w))
      else case fst (invoke [JArr args] (snd (blocked clk w))) of
             Resolves response \<Rightarrow>
               (Resolved (fst (success clk (getInfo response (snd (invoke [JArr args] (snd (blocked clk w)))))
                                 (snd (invoke [JArr args] (snd (blocked clk w)))))),
                snd (success clk (getInfo response (snd (invoke [JArr args] (snd (blocked clk w)))))
                                 (snd (invoke [JArr args] (snd (blocked clk w))))))
           | Rejects e \<Rightarrow>
               (Resolved (fst (fail clk (getInfo e (snd (invoke [JArr args] (snd (blocked clk w))))) args
                                 (snd (invoke [JArr args] (snd (blocked clk w)))))),
                snd (fail clk (getInfo e (snd (invoke [JArr args] (snd (blocked clk w))))) args
                                 (snd (invoke [JArr args] (snd (blocked clk w))))))
           | Hangs \<Rightarrow> (Unsettled, snd (invoke [JArr args] (snd (blocked clk w)))))"
  by (simp add: fire_def Let_def split_beta split: outcome.splits)

text \<open>
  Claim C1. While the state is \<^verbatim>\<open>OPENED\<close> and every clock reading is before
  \<^verbatim>\<open>openDateEnd\<close>, any number of calls of \<^verbatim>\<open>fire\<close>, with any arguments, all reject with
  the error \<^verbatim>\<open>The circuit is open\<close>; the guarded operation is not invoked (the invocation
  log is unchanged) and no field of the breaker changes: the object after the calls differs
  from the one before only in the number of clock readings taken, one per call.
\<close>

theorem fire_open_fast_fail:
  assumes "state w = OPENED" and "openDateEnd w = Some d"
    and "\<forall>k < length argss. clk (tick w + k) < d"
  shows "fire_many clk argss w =
           (replicate (length argss) (Rejected (JError ''The circuit is open'')),
            w\<lparr>tick := tick w + length argss\<rparr>)"
  using assms
proof (induction argss arbitrary: w)
  case Nil
  then show ?case by simp
next
  case (Cons args rest)
  from Cons.prems(3) have now: "clk (tick w) < d" by force
  let ?w = "w\<lparr>tick := Suc (tick w)\<rparr>"
  have step: "fire clk args w = (Rejected (JError ''The circuit is open''), ?w)"
    using Cons.prems(1,2) now by (simp add: fire_blocked js_lt_def)
  have later: "\<forall>k < length rest. clk (tick ?w + k) < d"
  proof (intro allI impI)
    fix k assume "k < length rest"
    then have "Suc k < length (args # rest)" by simp
    with Cons.prems(3) have "clk (tick w + Suc k) < d" by blast
    then show "clk (tick ?w + k) < d" by simp
  qed
  have "fire_many clk rest ?w =
          (replicate (length rest) (Rejected (JError ''The circuit is open'')),
           ?w\<lparr>tick := tick ?w + length rest\<rparr>)"
    using Cons.IH [of ?w] Cons.prems(1,2) later by simp
  then show ?case using step by simp
qed

text \<open>Three calls on the open breaker at the readings 4000, 5000 and 6000, all before 8000.\<close>

theorem fire_open_fast_fail_witness:
  "state opened_example = OPENED \<and> openDateEnd opened_example = Some 8000
   \<and> clock_1000s 3 < 8000 \<and> clock_1000s 4 < 8000 \<and> clock_1000s 5 < 8000
   \<and> fire_many clock_1000s [ [JNum 1], [JNum 2, JStr ''x''], [] ] opened_example =
       ([Rejected (JError ''The circuit is open''), Rejected (JError ''The circuit is open''),
         Rejected (JError ''The circuit is open'')],
        opened_example\<lparr>tick := 6\<rparr>)"
proof -
  have s: "state opened_example = OPENED" by (simp add: opened_example_def)
  have d: "openDateEnd opened_example = Some 8000" by (simp add: opened_example_def)
  have t: "\<forall>k < length [ [JNum 1], [JNum 2, JStr ''x''], [] ].
             clock_1000s (tick opened_example + k) < 8000"
    by (simp add: opened_example_def clock_1000s_def)
  have r: "clock_1000s 3 < 8000 \<and> clock_1000s 4 < 8000 \<and> clock_1000s 5 < 8000"
    by (simp add: clock_1000s_def)
  show ?thesis
    using fire_open_fast_fail [OF s d t] s d r by (simp add: opened_example_def)
qed

subsection \<open>What the handlers leave alone\<close>

lemma open_inv_later:
  assumes "open_inv clk w" "state w' = state w" "openDateEnd w' = openDateEnd w"
    "options w' = options w" "tick w \<le> tick w'"
  shows "open_inv clk w'"
  using assms unfolding open_inv_def by (metis less_le_trans)

lemma open_inv_set:
  assumes "openDateEnd w' = Some (clk k + openTimeout (options w'))" "k < tick w'"
  shows "open_inv clk w'"
  using assms unfolding open_inv_def by blast

lemma open_inv_not_open: "state w' \<noteq> OPENED \<Longrightarrow> open_inv clk w'"
  unfolding open_inv_def by simp

lemma setOpenDate_inv: "open_inv clk (setOpenDate clk w)"
  by (rule open_inv_set [where k = "tick w"]) (simp_all add: setOpenDate_def Date_now_def)

lemma setHalfDate_fields:
  "options (setHalfDate clk w) = options w" "tick w \<le> tick (setHalfDate clk w)"
  "state (setHalfDate clk w) = state w" "openDateEnd (setHalfDate clk w) = openDateEnd w"
  by (simp_all add: setHalfDate_def Date_now_def)

lemma fail_options: "options (snd (fail clk e args w)) = options w"
  by (simp add: fail_def setOpenDate_def setHalfDate_def reset_def Date_now_def Let_def
      split: State.splits)

lemma success_options: "options (snd (success clk r w)) = options w"
  by (simp add: success_def success_case_HALF_def success_case_OPENED_def
      success_case_CLOSED_def setHalfDate_def reset_def Date_now_def Let_def
      split: State.splits)

lemma fail_inv:
  assumes "open_inv clk w"
  shows "open_inv clk (snd (fail clk e args w))"
proof (cases "state w")
  case OPENED
  then show ?thesis by (simp add: fail_def setOpenDate_inv)
next
  case CLOSED
  then show ?thesis
    by (simp add: fail_def open_inv_not_open setHalfDate_fields)
next
  case HALF
  then show ?thesis
    by (auto simp add: fail_def Date_now_def Let_def setOpenDate_inv
        intro!: open_inv_not_open simp: setHalfDate_fields reset_def)
qed

text \<open>\<^verbatim>\<open>success\<close> never leaves the breaker open: every path through it ends in \<^verbatim>\<open>HALF\<close> or \<^verbatim>\<open>CLOSED\<close>.\<close>

lemma success_inv: "open_inv clk (snd (success clk r w))"
  by (rule open_inv_not_open)
    (simp add: success_def success_case_HALF_def success_case_OPENED_def
      success_case_CLOSED_def setHalfDate_def reset_def Date_now_def Let_def
      split: State.splits)

lemma blocked_inv: "open_inv clk w \<Longrightarrow> open_inv clk (snd (blocked clk w))"
  by (erule open_inv_later) (simp_all add: blocked_fields)

lemma invoke_inv: "open_inv clk w \<Longrightarrow> open_inv clk (snd (invoke actuals w))"
  by (erule open_inv_later) (simp_all add: invoke_def)

lemma fire_inv:
  assumes "open_inv clk w"
  shows "open_inv clk (snd (fire clk args w))"
  using assms
  by (simp add: fire_unfold blocked_inv invoke_inv fail_inv success_inv split: outcome.splits)

lemma fire_options: "options (snd (fire clk args w)) = options w"
  by (simp add: fire_unfold blocked_fields invoke_def fail_options success_options
      split: outcome.splits)

lemma fire_many_inv:
  "open_inv clk w \<Longrightarrow> open_inv clk (snd (fire_many clk argss w))
     \<and> options (snd (fire_many clk argss w)) = options w"
proof (induction argss arbitrary: w)
  case Nil
  then show ?case by simp
next
  case (Cons args rest)
  have "open_inv clk (snd (fire clk args w))" using Cons.prems by (rule fire_inv)
  from Cons.IH [OF this] show ?case
    by (simp add: split_beta fire_options)
qed

lemma start_inv: "open_inv clk (start (construct req opts))"
  by (simp add: open_inv_def start_def construct_def CircuitBreaker.extend_def)

lemma fire_many_snoc:
  "fire_many clk (argss @ [args]) w =
     (fst (fire_many clk argss w) @ [fst (fire clk args (snd (fire_many clk argss w)))],
      snd (fire clk args (snd (fire_many clk argss w))))"
  by (induction argss arbitrary: w) (simp_all add: split_beta)

text \<open>
  A call of \<^verbatim>\<open>fire\<close> that ends with the breaker \<^verbatim>\<open>OPENED\<close>. If its promise resolved, the
  guarded operation failed and \<^verbatim>\<open>setOpenDate\<close> ran in this call: the deadline is the last
  clock reading, taken in this call, plus \<^verbatim>\<open>openTimeout\<close>. Otherwise the breaker was
  \<^verbatim>\<open>OPENED\<close> before the call and the deadline is the one it had.
\<close>

lemma fire_into_opened:
  assumes "fire clk args v = (p, w)" and "state w = OPENED"
  shows "case p of
           Resolved r \<Rightarrow>
             openDateEnd w = Some (clk (tick w - 1) + openTimeout (options v))
             \<and> tick v < tick w
             \<and> (\<exists>e. request v (length (calls v)) [JArr args] = Rejects e)
         | Rejected x \<Rightarrow> state v = OPENED \<and> openDateEnd w = openDateEnd v
         | Unsettled \<Rightarrow> state v = OPENED \<and> openDateEnd w = openDateEnd v"
  using assms
  by (auto simp add: fire_def blocked_def invoke_def success_def fail_def success_case_HALF_def
      success_case_OPENED_def success_case_CLOSED_def setHalfDate_def setOpenDate_def
      reset_def Date_now_def Let_def
      split: outcome.splits State.splits if_splits)

text \<open>
  Claim C5. Take any state that calls of \<^verbatim>\<open>fire\<close> reach from a newly constructed breaker,
  whatever the configuration, the guarded operation, the arguments and the clock, and let
  its state be \<^verbatim>\<open>OPENED\<close>. Then at least one call was made, and the last call decides
  \<^verbatim>\<open>openDateEnd\<close>: if its promise resolved, the guarded operation failed in it and
  \<^verbatim>\<open>openDateEnd\<close> is the last clock reading, taken in that call, plus the configured
  \<^verbatim>\<open>openTimeout\<close>; if it rejected or did not settle, the breaker was \<^verbatim>\<open>OPENED\<close> before it and
  \<^verbatim>\<open>openDateEnd\<close> is unchanged. So \<^verbatim>\<open>openDateEnd\<close> is defined, and it is the reading of the call
  that entered or renewed the open state plus \<^verbatim>\<open>openTimeout\<close>. While the clock is before
  \<^verbatim>\<open>openDateEnd\<close>, a call of \<^verbatim>\<open>fire\<close> rejects and the guarded operation is not invoked.
\<close>

theorem opened_has_deadline:
  assumes "new_CircuitBreaker req opts = Inr b"
    and "fire_many clk argss (start b) = (ps, w)"
    and "state w = OPENED"
  shows "(\<exists>argss0 args ps0 p v.
            argss = argss0 @ [args] \<and> ps = ps0 @ [p]
          \<and> fire_many clk argss0 (start b) = (ps0, v)
          \<and> fire clk args v = (p, w)
          \<and> (case p of
                Resolved r \<Rightarrow>
                  openDateEnd w = Some (clk (tick w - 1) + openTimeout (options b))
                  \<and> tick v < tick w
                  \<and> (\<exists>e. request v (length (calls v)) [JArr args] = Rejects e)
              | Rejected x \<Rightarrow> state v = OPENED \<and> openDateEnd w = openDateEnd v
              | Unsettled \<Rightarrow> state v = OPENED \<and> openDateEnd w = openDateEnd v))
       \<and> (\<exists>k < tick w. openDateEnd w = Some (clk k + openTimeout (options b)))
       \<and> (\<forall>args d. openDateEnd w = Some d \<longrightarrow> clk (tick w) < d \<longrightarrow>
             fst (fire clk args w) = Rejected (JError ''The circuit is open'')
           \<and> calls (snd (fire clk args w)) = calls w)"
proof -
  from assms(1) have b: "b = construct req opts" by (simp add: new_CircuitBreaker_def)
  have ob: "options (start b) = options b"
    by (simp add: start_def CircuitBreaker.extend_def)
  have "open_inv clk (snd (fire_many clk argss (start b)))
      \<and> options (snd (fire_many clk argss (start b))) = options (start b)"
    unfolding b by (rule fire_many_inv [OF start_inv])
  with assms(2) have "open_inv clk w" and "options w = options (start b)" by simp_all
  with ob have first: "\<exists>k < tick w. openDateEnd w = Some (clk k + openTimeout (options b))"
    using assms(3) by (simp add: open_inv_def)
  have second: "fst (fire clk args w) = Rejected (JError ''The circuit is open'')
           \<and> calls (snd (fire clk args w)) = calls w"
    if "openDateEnd w = Some d" "clk (tick w) < d" for args d
    using fire_blocked [of w clk args] assms(3) that by (simp add: js_lt_def)
  have last_call: "\<exists>argss0 args ps0 p v.
            argss = argss0 @ [args] \<and> ps = ps0 @ [p]
          \<and> fire_many clk argss0 (start b) = (ps0, v)
          \<and> fire clk args v = (p, w)
          \<and> (case p of
                Resolved r \<Rightarrow>
                  openDateEnd w = Some (clk (tick w - 1) + openTimeout (options b))
                  \<and> tick v < tick w
                  \<and> (\<exists>e. request v (length (calls v)) [JArr args] = Rejects e)
              | Rejected x \<Rightarrow> state v = OPENED \<and> openDateEnd w = openDateEnd v
              | Unsettled \<Rightarrow> state v = OPENED \<and> openDateEnd w = openDateEnd v)"
  proof (cases argss rule: rev_cases)
    case Nil
    with assms(2) have "w = start b" by simp
    then have "state w = CLOSED"
      by (simp add: b start_def construct_def CircuitBreaker.extend_def)
    with assms(3) show ?thesis by simp
  next
    case (snoc argss0 args)
    let ?ps0 = "fst (fire_many clk argss0 (start b))"
    let ?v = "snd (fire_many clk argss0 (start b))"
    let ?p = "fst (fire clk args ?v)"
    from assms(2) have ps: "ps = ?ps0 @ [?p]" and w: "w = snd (fire clk args ?v)"
      unfolding snoc fire_many_snoc by simp_all
    have step: "fire clk args ?v = (?p, w)" by (simp add: w)
    have "options ?v = options (start b)"
      using fire_many_inv [OF start_inv [of clk req opts], of argss0] unfolding b by simp
    then have ov: "options ?v = options b" using ob by simp
    have "case ?p of
                Resolved r \<Rightarrow>
                  openDateEnd w = Some (clk (tick w - 1) + openTimeout (options b))
                  \<and> tick ?v < tick w
                  \<and> (\<exists>e. request ?v (length (calls ?v)) [JArr args] = Rejects e)
              | Rejected x \<Rightarrow> state ?v = OPENED \<and> openDateEnd w = openDateEnd ?v
              | Unsettled \<Rightarrow> state ?v = OPENED \<and> openDateEnd w = openDateEnd ?v"
      using fire_into_opened [OF step assms(3)] unfolding ov .
    with snoc ps step show ?thesis by (intro exI [of _ argss0] exI [of _ args]
          exI [of _ ?ps0] exI [of _ ?p] exI [of _ ?v]) simp
  qed
  from last_call first second show ?thesis by blast
qed

text \<open>
  Two failed calls open the breaker configured with \<open>scenario_opts\<close>: the second call
  takes the readings 2000 and 3000, and the deadline 8000 is 3000 plus 5000; a call at 4000
  is rejected.
\<close>

theorem opened_has_deadline_witness:
  "new_CircuitBreaker always_fails (Some scenario_opts)
     = Inr (construct always_fails (Some scenario_opts))
   \<and> fire_many clock_1000s [ [], [] ] (start (construct always_fails (Some scenario_opts)))
       = ([Resolved (JInfo (JStr ''Failed'') CLOSED 0 0),
           Resolved (JInfo (JStr ''Failed'') HALF 0 11000)],
          opened_example)
   \<and> state opened_example = OPENED
   \<and> openDateEnd opened_example = Some 8000 \<and> clock_1000s (tick opened_example) < 8000
   \<and> openDateEnd opened_example = Some (clock_1000s (tick opened_example - 1) + 5000)
   \<and> (\<exists>k < tick opened_example. openDateEnd opened_example
         = Some (clock_1000s k + openTimeout (options (construct always_fails (Some scenario_opts)))))
   \<and> fst (fire clock_1000s [JNum 7] opened_example) = Rejected (JError ''The circuit is open'')
   \<and> calls (snd (fire clock_1000s [JNum 7] opened_example)) = calls opened_example"
proof -
  let ?b = "construct always_fails (Some scenario_opts)"
  have h1: "new_CircuitBreaker always_fails (Some scenario_opts) = Inr ?b"
    by (simp add: new_CircuitBreaker_def)
  have h2: "fire_many clock_1000s [ [], [] ] (start ?b)
       = ([Resolved (JInfo (JStr ''Failed'') CLOSED 0 0),
           Resolved (JInfo (JStr ''Failed'') HALF 0 11000)],
          opened_example)"
    by (simp add: ctor_defs method_defs always_fails_def clock_1000s_def scenario_opts_def
        opened_example_def Let_def)
  have h3: "state opened_example = OPENED" by (simp add: opened_example_def)
  have h4: "openDateEnd opened_example = Some 8000" by (simp add: opened_example_def)
  have h5: "clock_1000s (tick opened_example) < 8000"
    by (simp add: opened_example_def clock_1000s_def)
  have h6: "openDateEnd opened_example = Some (clock_1000s (tick opened_example - 1) + 5000)"
    by (simp add: opened_example_def clock_1000s_def)
  from opened_has_deadline [OF h1 h2 h3] h1 h2 h3 h4 h5 h6 show ?thesis by blast
qed

subsection \<open>How the promise of fire settles\<close>

lemma fail_result: "fst (fail clk e args w) = e \<or> fst (fail clk e args w) = JUndefined"
  by (simp add: fail_def Date_now_def Let_def split: State.splits)

text \<open>
  Claim C9. The promise of \<^verbatim>\<open>fire\<close> rejects exactly when the state is \<^verbatim>\<open>OPENED\<close> and the
  clock is before \<^verbatim>\<open>openDateEnd\<close>, and then with the error \<^verbatim>\<open>The circuit is open\<close>. When the
  call is admitted and the guarded operation rejects with \<open>e\<close>, the promise resolves: with
  the object \<^verbatim>\<open>{ response: e, ...getInfo() }\<close> or with undefined.
\<close>

theorem fire_rejects_only_when_open:
  "(fst (fire clk args w) = Rejected x \<longleftrightarrow>
      state w = OPENED \<and> js_lt (clk (tick w)) (openDateEnd w)
      \<and> x = JError ''The circuit is open'')
   \<and> (\<not> (state w = OPENED \<and> js_lt (clk (tick w)) (openDateEnd w)) \<longrightarrow>
        request w (length (calls w)) [JArr args] = Rejects e \<longrightarrow>
          fst (fire clk args w) = Resolved (getInfo e w)
          \<or> fst (fire clk args w) = Resolved JUndefined)"
proof (cases "state w = OPENED \<and> js_lt (clk (tick w)) (openDateEnd w)")
  case True
  then have "fire clk args w =
      (Rejected (JError ''The circuit is open''), w\<lparr>tick := Suc (tick w)\<rparr>)"
    by (simp add: fire_blocked)
  with True show ?thesis by auto
next
  case False
  then have nb: "\<not> fst (blocked clk w)" by (simp add: blocked_iff)
  let ?w1 = "snd (invoke [JArr args] (snd (blocked clk w)))"
  have no_reject: "fst (fire clk args w) \<noteq> Rejected x"
    using nb by (simp add: fire_unfold split: outcome.splits)
  have info: "getInfo e ?w1 = getInfo e w"
    by (simp add: getInfo_def invoke_def blocked_fields)
  have out: "fst (invoke [JArr args] (snd (blocked clk w)))
      = request w (length (calls w)) [JArr args]"
    by (simp add: invoke_def blocked_fields)
  have "fst (fire clk args w) = Resolved (getInfo e w)
      \<or> fst (fire clk args w) = Resolved JUndefined"
    if "request w (length (calls w)) [JArr args] = Rejects e"
    using nb that fail_result [of clk "getInfo e w" args ?w1]
    by (auto simp add: fire_unfold out info)
  with no_reject False show ?thesis by blast
qed

text \<open>
  On the open breaker at the reading 4000 the promise rejects; on a new breaker, whose
  guarded operation rejects with \<^verbatim>\<open>"Failed"\<close>, it resolves with the object holding it.
\<close>

theorem fire_rejects_only_when_open_witness:
  "(state opened_example = OPENED
      \<and> js_lt (clock_1000s (tick opened_example)) (openDateEnd opened_example)
      \<and> fst (fire clock_1000s [] opened_example) = Rejected (JError ''The circuit is open''))
   \<and> (\<not> (state (start (construct always_fails None)) = OPENED
           \<and> js_lt (clock_1000s (tick (start (construct always_fails None))))
                   (openDateEnd (start (construct always_fails None))))
      \<and> request (start (construct always_fails None))
           (length (calls (start (construct always_fails None)))) [JArr []]
           = Rejects (JStr ''Failed'')
      \<and> fst (fire clock_1000s [] (start (construct always_fails None)))
           = Resolved (JInfo (JStr ''Failed'') CLOSED 0 0))"
proof -
  let ?w = "start (construct always_fails None)"
  have a: "state opened_example = OPENED
      \<and> js_lt (clock_1000s (tick opened_example)) (openDateEnd opened_example)"
    by (simp add: opened_example_def js_lt_def clock_1000s_def)
  have b: "\<not> (state ?w = OPENED \<and> js_lt (clock_1000s (tick ?w)) (openDateEnd ?w))"
    by (simp add: ctor_defs)
  have c: "request ?w (length (calls ?w)) [JArr []] = Rejects (JStr ''Failed'')"
    by (simp add: ctor_defs always_fails_def)
  have d: "getInfo (JStr ''Failed'') ?w = JInfo (JStr ''Failed'') CLOSED 0 0"
    by (simp add: ctor_defs getInfo_def or_default_def)
  have e: "fst (fire clock_1000s [] ?w) \<noteq> Resolved JUndefined"
    by (simp add: ctor_defs method_defs always_fails_def)
  from fire_rejects_only_when_open
         [of clock_1000s "[]" opened_example "JError ''The circuit is open''" undefined] a
  have r1: "fst (fire clock_1000s [] opened_example) = Rejected (JError ''The circuit is open'')"
    by blast
  from fire_rejects_only_when_open [of clock_1000s "[]" ?w undefined "JStr ''Failed''"] b c d e
  have r2: "fst (fire clock_1000s [] ?w) = Resolved (JInfo (JStr ''Failed'') CLOSED 0 0)"
    by auto
  from a b c r1 r2 show ?thesis by blast
qed

subsection \<open>Failures\<close>



text \<open>
  A failure in \<^verbatim>\<open>HALF\<close> strictly after \<^verbatim>\<open>halfDateEnd\<close> starts a new window: counters reset,
  \<^verbatim>\<open>failCount\<close> 1, the deadline set from the next clock reading.
\<close>

lemma fail_after_half_deadline:
  assumes "state w = HALF" "halfDateEnd w = Some d" "clk (tick w) > d"
  shows "fail clk e args w =
           (e, w\<lparr>successCount := 0, failCount := 1,
                 halfDateEnd := Some (clk (Suc (tick w)) + halfTimeout (options w)),
                 tick := tick w + 2\<rparr>)"
  using assms by (simp add: fail_def js_gt_def Date_now_def reset_def setHalfDate_def)


lemma fire_half_fail_restarts:
  assumes "state w = HALF" "request w (length (calls w)) [JArr args] = Rejects e"
    and "\<not> js_gt (clk (tick w)) (halfDateEnd w)"
    and "int (failCount w + 1) \<ge> minFailed (options w)"
    and "\<not> rate_ge (getFailRate (w\<lparr>failCount := failCount w + 1\<rparr>)) (percentFailed (options w))"
  shows "fire clk args w =
           (Resolved (getInfo e w),
            w\<lparr>successCount := 0, failCount := 1,
              halfDateEnd := Some (clk (Suc (tick w)) + halfTimeout (options w)),
              tick := tick w + 2, calls := calls w @ [ [JArr args] ]\<rparr>)"
  using assms
  by (simp add: fire_def blocked_def invoke_def fail_def setHalfDate_def Date_now_def
      getInfo_def reset_def getFailRate_def)




text \<open>
  Claim C4 says that \<^verbatim>\<open>fire\<close> hands every failure of the guarded operation back to the
  caller. The code does not in \<^verbatim>\<open>HALF\<close> while \<^verbatim>\<open>failCount\<close> is below \<^verbatim>\<open>minFailed\<close>: on a breaker
  with the default options, the guarded operation rejecting with \<^verbatim>\<open>"Failed"\<close> on both calls,
  the first call resolves with the object holding \<^verbatim>\<open>"Failed"\<close>, and the second, made in
  \<^verbatim>\<open>HALF\<close> at 2000 before the deadline 11000, records the failure (\<^verbatim>\<open>failCount\<close> 2) and
  resolves with undefined.
\<close>

theorem fail_in_half_returns_undefined:
  "fire_many clock_1000s [ [], [] ] (start (construct always_fails None)) =
     ([Resolved (JInfo (JStr ''Failed'') CLOSED 0 0), Resolved JUndefined],
      \<lparr> request = always_fails, options = default_options,
        state = HALF, openDateEnd = None, halfDateEnd = Some 11000,
        failCount = 2, successCount = 0, tick = 2, calls = [ [JArr []], [JArr []] ] \<rparr>)"
  by (simp add: ctor_defs method_defs always_fails_def clock_1000s_def
      default_options_def Let_def)

text \<open>
  Claim C7 says that a failure in \<^verbatim>\<open>HALF\<close> at the instant \<^verbatim>\<open>halfDateEnd\<close> itself starts a new
  window. The code tests \<^verbatim>\<open>Date.now() > halfDateEnd\<close>, so at that instant the failure counts
  in the old window: with the options of src/index.ts, a first failure at 1000 sets the
  deadline 6000, and a second failure at exactly 6000 brings \<^verbatim>\<open>failCount\<close> to 2, which
  reaches \<^verbatim>\<open>minFailed\<close>, and opens the breaker.
\<close>

theorem fail_at_half_deadline_accumulates:
  "fire_many clock_boundary [ [] ] (start (construct always_fails (Some demo_opts))) =
     ([Resolved (JInfo (JStr ''Failed'') CLOSED 0 0)],
      \<lparr> request = always_fails,
        options = \<lparr> halfTimeout = 5000, openTimeout = 5000, minFailed = 2, percentFailed = 50 \<rparr>,
        state = HALF, openDateEnd = None, halfDateEnd = Some 6000,
        failCount = 1, successCount = 0, tick = 1, calls = [ [JArr []] ] \<rparr>)
   \<and> clock_boundary 1 = 6000
   \<and> fire_many clock_boundary [ [], [] ] (start (construct always_fails (Some demo_opts))) =
     ([Resolved (JInfo (JStr ''Failed'') CLOSED 0 0),
       Resolved (JInfo (JStr ''Failed'') HALF 0 6000)],
      \<lparr> request = always_fails,
        options = \<lparr> halfTimeout = 5000, openTimeout = 5000, minFailed = 2, percentFailed = 50 \<rparr>,
        state = OPENED, openDateEnd = Some 11000, halfDateEnd = None,
        failCount = 0, successCount = 0, tick = 3, calls = [ [JArr []], [JArr []] ] \<rparr>)"
  by (simp add: ctor_defs method_defs always_fails_def clock_boundary_def demo_opts_def Let_def)

subsection \<open>Successes\<close>

text \<open>
  Claim C2 says that a success in \<^verbatim>\<open>HALF\<close> before \<^verbatim>\<open>halfDateEnd\<close> only increments
  \<^verbatim>\<open>successCount\<close>, and that one at or after \<^verbatim>\<open>halfDateEnd\<close> closes the breaker. In the code
  the \<^verbatim>\<open>HALF\<close> case of \<^verbatim>\<open>success\<close> runs on into the other two. On a breaker with the default
  options, a failure at 1000 gives \<^verbatim>\<open>HALF\<close> with \<^verbatim>\<open>successCount\<close> 0 and the deadline 11000.
  A success at 2000 then leaves \<^verbatim>\<open>successCount\<close> 2 and the deadline 13000; a success at
  20000, after the deadline, leaves the breaker \<^verbatim>\<open>HALF\<close> with \<^verbatim>\<open>successCount\<close> 2 and the
  deadline 30000.
\<close>

theorem success_in_half_runs_every_case:
  "fire_many clock_1000s [ [] ] (start (construct fail_then_succeed None)) =
     ([Resolved (JInfo (JStr ''Failed'') CLOSED 0 0)],
      \<lparr> request = fail_then_succeed, options = default_options,
        state = HALF, openDateEnd = None, halfDateEnd = Some 11000,
        failCount = 1, successCount = 0, tick = 1, calls = [ [JArr []] ] \<rparr>)
   \<and> fire_many clock_1000s [ [], [] ] (start (construct fail_then_succeed None)) =
     ([Resolved (JInfo (JStr ''Failed'') CLOSED 0 0),
       Resolved (JInfo (JStr ''Success'') HALF 0 11000)],
      \<lparr> request = fail_then_succeed, options = default_options,
        state = HALF, openDateEnd = None, halfDateEnd = Some 13000,
        failCount = 1, successCount = 2, tick = 3, calls = [ [JArr []], [JArr []] ] \<rparr>)
   \<and> fire_many clock_late [ [], [] ] (start (construct fail_then_succeed None)) =
     ([Resolved (JInfo (JStr ''Failed'') CLOSED 0 0),
       Resolved (JInfo (JStr ''Success'') HALF 0 11000)],
      \<lparr> request = fail_then_succeed, options = default_options,
        state = HALF, openDateEnd = None, halfDateEnd = Some 30000,
        failCount = 0, successCount = 2, tick = 3, calls = [ [JArr []], [JArr []] ] \<rparr>)"
  by (simp add: ctor_defs method_defs fail_then_succeed_def clock_1000s_def clock_late_def
      default_options_def Let_def)

text \<open>
  In general: after a success in \<^verbatim>\<open>HALF\<close> the state is \<^verbatim>\<open>HALF\<close>, \<^verbatim>\<open>successCount\<close> is 2 and the
  deadline is restarted from the second clock reading, whatever the fields were.
\<close>

lemma success_in_half:
  assumes "state w = HALF"
  shows "state (snd (success clk r w)) = HALF"
    and "successCount (snd (success clk r w)) = 2"
    and "halfDateEnd (snd (success clk r w)) = Some (clk (Suc (tick w)) + halfTimeout (options w))"
  using assms
  by (simp_all add: success_def success_case_HALF_def success_case_OPENED_def
      success_case_CLOSED_def setHalfDate_def reset_def Date_now_def Let_def)

subsection \<open>The arguments of the guarded operation\<close>

lemma fire_admitted_calls:
  assumes "\<not> (state w = OPENED \<and> js_lt (clk (tick w)) (openDateEnd w))"
  shows "calls (snd (fire clk args w)) = calls w @ [ [JArr args] ]"
  using assms
  by (auto simp add: method_defs Let_def split: outcome.splits State.splits option.splits)

text \<open>
  Claim C8 says that \<^verbatim>\<open>fire(a, b)\<close> invokes the guarded operation as \<^verbatim>\<open>op(a, b)\<close>. The code
  calls \<^verbatim>\<open>this.request(args)\<close>: \<^verbatim>\<open>fire(1, 2)\<close> invokes the guarded operation with the one
  argument \<^verbatim>\<open>[1, 2]\<close>, as the invocation log and the response of an operation that returns
  its argument list show.
\<close>

theorem fire_passes_one_array:
  "fire clock_1000s [JNum 1, JNum 2] (start (construct echo None)) =
     (Resolved (JInfo (JArr [JArr [JNum 1, JNum 2]]) CLOSED 0 0),
      \<lparr> request = echo, options = default_options,
        state = CLOSED, openDateEnd = None, halfDateEnd = None,
        failCount = 0, successCount = 1, tick = 0, calls = [ [JArr [JNum 1, JNum 2]] ] \<rparr>)"
  by (simp add: ctor_defs method_defs echo_def default_options_def Let_def)

subsection \<open>Construction\<close>

text \<open>
  Claim C6, as stated, fails: constructing a breaker with negative timeouts, a negative
  \<^verbatim>\<open>minFailed\<close> and \<^verbatim>\<open>percentFailed\<close> 150 raises nothing and returns a breaker holding those
  values.
\<close>

theorem malformed_options_are_accepted:
  "new_CircuitBreaker always_fails (Some malformed_opts) =
     Inr \<lparr> request = always_fails,
           options = \<lparr> halfTimeout = - 1, openTimeout = - 5000, minFailed = - 3,
                       percentFailed = 150 \<rparr>,
           state = CLOSED, openDateEnd = None, halfDateEnd = None,
           failCount = 0, successCount = 0 \<rparr>"
  by (simp add: ctor_defs or_default_def malformed_opts_def)

text \<open>
  Claim C6, amended. Construction performs no validation and never raises, for every
  configuration: the options object present or not, each option omitted, NaN or any
  integer. The breaker starts \<^verbatim>\<open>CLOSED\<close>. An option that is omitted, NaN or 0 is replaced by
  its default (10000, 5000, 15, 50); every other value, a negative timeout or \<^verbatim>\<open>minFailed\<close>
  and a \<^verbatim>\<open>percentFailed\<close> outside (0, 100] included, is stored as given.
\<close>

theorem constructor_never_fails:
  "\<exists>b. new_CircuitBreaker req opts = Inr b
      \<and> state b = CLOSED
      \<and> (\<forall>v. opt_field halfTimeout opts = Some (Num v) \<longrightarrow> v \<noteq> 0 \<longrightarrow>
            halfTimeout (options b) = v)
      \<and> (opt_field halfTimeout opts = None \<or> opt_field halfTimeout opts = Some NaN
           \<or> opt_field halfTimeout opts = Some (Num 0) \<longrightarrow> halfTimeout (options b) = 10000)
      \<and> (\<forall>v. opt_field openTimeout opts = Some (Num v) \<longrightarrow> v \<noteq> 0 \<longrightarrow>
            openTimeout (options b) = v)
      \<and> (opt_field openTimeout opts = None \<or> opt_field openTimeout opts = Some NaN
           \<or> opt_field openTimeout opts = Some (Num 0) \<longrightarrow> openTimeout (options b) = 5000)
      \<and> (\<forall>v. opt_field minFailed opts = Some (Num v) \<longrightarrow> v \<noteq> 0 \<longrightarrow>
            minFailed (options b) = v)
      \<and> (opt_field minFailed opts = None \<or> opt_field minFailed opts = Some NaN
           \<or> opt_field minFailed opts = Some (Num 0) \<longrightarrow> minFailed (options b) = 15)
      \<and> (\<forall>v. opt_field percentFailed opts = Some (Num v) \<longrightarrow> v \<noteq> 0 \<longrightarrow>
            percentFailed (options b) = v)
      \<and> (opt_field percentFailed opts = None \<or> opt_field percentFailed opts = Some NaN
           \<or> opt_field percentFailed opts = Some (Num 0) \<longrightarrow> percentFailed (options b) = 50)"
  by (auto simp add: new_CircuitBreaker_def construct_def or_default_def)

text \<open>
  A negative \<^verbatim>\<open>halfTimeout\<close> and a \<^verbatim>\<open>percentFailed\<close> of 101 are stored; \<^verbatim>\<open>openTimeout\<close> given as
  NaN and \<^verbatim>\<open>minFailed\<close> omitted take their defaults.
\<close>

theorem constructor_never_fails_witness:
  "opt_field halfTimeout (Some mixed_opts) = Some (Num (- 20)) \<and> (- 20 :: int) \<noteq> 0
   \<and> opt_field openTimeout (Some mixed_opts) = Some NaN
   \<and> opt_field minFailed (Some mixed_opts) = None
   \<and> opt_field percentFailed (Some mixed_opts) = Some (Num 101) \<and> (101 :: int) \<noteq> 0
   \<and> (\<exists>b. new_CircuitBreaker echo (Some mixed_opts) = Inr b
      \<and> state b = CLOSED
      \<and> halfTimeout (options b) = - 20 \<and> openTimeout (options b) = 5000
      \<and> minFailed (options b) = 15 \<and> percentFailed (options b) = 101)"
proof -
  have h: "opt_field halfTimeout (Some mixed_opts) = Some (Num (- 20))"
    by (simp add: opt_field_def mixed_opts_def)
  have t: "opt_field openTimeout (Some mixed_opts) = Some NaN"
    by (simp add: opt_field_def mixed_opts_def)
  have m: "opt_field minFailed (Some mixed_opts) = None"
    by (simp add: opt_field_def mixed_opts_def)
  have p: "opt_field percentFailed (Some mixed_opts) = Some (Num 101)"
    by (simp add: opt_field_def mixed_opts_def)
  from constructor_never_fails [of echo "Some mixed_opts"] h t m p
  show ?thesis by auto
qed

text \<open>
  Claim C10. An option passed as 0 gives the same breaker as the option omitted, and the
  stored value is the default: 5000 for \<^verbatim>\<open>openTimeout\<close>, 10000 for \<^verbatim>\<open>halfTimeout\<close>, 15 for
  \<^verbatim>\<open>minFailed\<close>, 50 for \<^verbatim>\<open>percentFailed\<close>; construction does not raise.
\<close>

theorem zero_option_takes_default:
  "new_CircuitBreaker req (Some (opts\<lparr>openTimeout := Some (Num 0)\<rparr>)) =
     new_CircuitBreaker req (Some (opts\<lparr>openTimeout := None\<rparr>))
   \<and> new_CircuitBreaker req (Some (opts\<lparr>halfTimeout := Some (Num 0)\<rparr>)) =
     new_CircuitBreaker req (Some (opts\<lparr>halfTimeout := None\<rparr>))
   \<and> new_CircuitBreaker req (Some (opts\<lparr>minFailed := Some (Num 0)\<rparr>)) =
     new_CircuitBreaker req (Some (opts\<lparr>minFailed := None\<rparr>))
   \<and> new_CircuitBreaker req (Some (opts\<lparr>percentFailed := Some (Num 0)\<rparr>)) =
     new_CircuitBreaker req (Some (opts\<lparr>percentFailed := None\<rparr>))
   \<and> (\<exists>b. new_CircuitBreaker req (Some (opts\<lparr>openTimeout := Some (Num 0)\<rparr>)) = Inr b
          \<and> openTimeout (options b) = 5000)
   \<and> (\<exists>b. new_CircuitBreaker req (Some (opts\<lparr>halfTimeout := Some (Num 0)\<rparr>)) = Inr b
          \<and> halfTimeout (options b) = 10000)
   \<and> (\<exists>b. new_CircuitBreaker req (Some (opts\<lparr>minFailed := Some (Num 0)\<rparr>)) = Inr b
          \<and> minFailed (options b) = 15)
   \<and> (\<exists>b. new_CircuitBreaker req (Some (opts\<lparr>percentFailed := Some (Num 0)\<rparr>)) = Inr b
          \<and> percentFailed (options b) = 50)"
  by (simp add: ctor_defs or_default_def)

end
